theory Spec2Isabelle
  imports Main "HOL-Library.Sublist"
begin

section \<open>JavaScript values and objects used as tables\<close>

text \<open>
  Both modules keep their tables in ordinary JavaScript objects (object literals, whose
  prototype is \<open>Object.prototype\<close>) and ask them \<open>obj.hasOwnProperty(name)\<close>.
  An object is modelled by the map of its own properties. Property names are strings
  over the code units 0 to 255 (one \<open>char\<close> for one code unit). None of the tables ever stores a
  function, so an own property called \<open>hasOwnProperty\<close> hides the method of
  \<open>Object.prototype\<close> behind a value that cannot be called.
\<close>

datatype jsval =
    JSUndefined
  | JSNull
  | JSBool bool
  | JSNumber int
  | JSString string
  | JSObject

text \<open>ToBoolean, on the values above (numbers are restricted to integers).\<close>

fun truthy :: "jsval \<Rightarrow> bool" where
  "truthy JSUndefined = False"
| "truthy JSNull = False"
| "truthy (JSBool b) = b"
| "truthy (JSNumber n) = (n \<noteq> 0)"
| "truthy (JSString s) = (s \<noteq> [])"
| "truthy JSObject = True"

datatype error = TypeError

type_synonym 'v jsobject = "string \<rightharpoonup> 'v"

text \<open>
  \<open>obj.hasOwnProperty(name)\<close>: the method is looked up on the object first. When the
  object has an own property of that name (a boolean or a string in these tables) the call
  throws \<open>TypeError: obj.hasOwnProperty is not a function\<close>; otherwise the method of
  \<open>Object.prototype\<close> runs and answers whether \<open>name\<close> is an own property.
\<close>

definition hasOwnProperty :: "'v jsobject \<Rightarrow> string \<Rightarrow> error + bool" where
  "hasOwnProperty obj name =
     (case obj ''hasOwnProperty'' of
        Some v \<Rightarrow> Inl TypeError
      | None \<Rightarrow> Inr (obj name \<noteq> None))"

text \<open>
  \<open>obj[name] = v\<close> for a primitive \<open>v\<close>: every name creates or overwrites an own
  property, but \<open>__proto__\<close>, which is the accessor of \<open>Object.prototype\<close>: its
  setter ignores a value that is neither an object nor null, and no own property appears.
\<close>

definition assign :: "'v jsobject \<Rightarrow> string \<Rightarrow> 'v \<Rightarrow> 'v jsobject" where
  "assign obj name v = (if name = ''__proto__'' then obj else obj(name \<mapsto> v))"

text \<open>
  \<open>String.prototype.toLowerCase\<close> on these strings. Below code unit 256 the upper-case
  letters are \<open>A\<close> to \<open>Z\<close> (65 to 90) and the accented capitals 192 to 222 without the
  multiplication sign 215; each has its lower-case letter 32 places further. Every other
  code unit stays.
\<close>

definition toLowerCase_char :: "char \<Rightarrow> char" where
  "toLowerCase_char c =
     (let n = (of_char c :: nat) in
      if (65 \<le> n \<and> n \<le> 90) \<or> (192 \<le> n \<and> n \<le> 222 \<and> n \<noteq> 215)
      then char_of (n + 32)
      else c)"

definition toLowerCase :: "string \<Rightarrow> string" where
  "toLowerCase s = map toLowerCase_char s"

text \<open>\<open>s.indexOf(c)\<close> for a one-character needle: the first position, or -1.\<close>

fun indexOf :: "string \<Rightarrow> char \<Rightarrow> int" where
  "indexOf [] c = - 1"
| "indexOf (x # xs) c =
     (if x = c then 0 else (let i = indexOf xs c in if i < 0 then - 1 else i + 1))"

text \<open>
  \<open>Array.prototype.join\<close>: the elements from left to right, the separator before
  every element but the first.
\<close>

fun join_from :: "string \<Rightarrow> string \<Rightarrow> string list \<Rightarrow> string" where
  "join_from sep acc [] = acc"
| "join_from sep acc (x # xs) = join_from sep (acc @ sep @ x) xs"

definition join :: "string \<Rightarrow> string list \<Rightarrow> string" where
  "join sep xs = (case xs of [] \<Rightarrow> [] | x # rest \<Rightarrow> join_from sep x rest)"


section \<open>DOMProperty\<close>

subsection \<open>Reserved props\<close>

definition RESERVED_PROPS :: "bool jsobject" where
  "RESERVED_PROPS = map_of
     [(''children'', True),
      (''dangerouslySetInnerHTML'', True),
      (''key'', True),
      (''ref'', True),
      (''autoFocus'', True),
      (''defaultValue'', True),
      (''defaultChecked'', True),
      (''innerHTML'', True),
      (''suppressContentEditableWarning'', True),
      (''onFocusIn'', True),
      (''onFocusOut'', True)]"

definition isReservedProp :: "string \<Rightarrow> error + bool" where
  "isReservedProp name = hasOwnProperty RESERVED_PROPS name"


subsection \<open>The attribute registry\<close>

text \<open>
  A descriptor of \<open>DOMProperty.properties\<close>. A flag the literal leaves out reads as
  \<open>undefined\<close>, which is falsy: \<open>False\<close> here. The only mutation method of the table
  is the one of \<open>value\<close>.
\<close>

datatype mutation = setValueAttribute

record descriptor =
  attributeName :: string
  attributeNamespace :: "string option"
  mustUseProperty :: bool
  hasBooleanValue :: bool
  hasNumericValue :: bool
  hasPositiveNumericValue :: bool
  hasOverloadedBooleanValue :: bool
  mutationMethod :: "mutation option"

definition attr :: "string \<Rightarrow> descriptor" where
  "attr a =
     \<lparr>attributeName = a, attributeNamespace = None, mustUseProperty = False,
      hasBooleanValue = False, hasNumericValue = False, hasPositiveNumericValue = False,
      hasOverloadedBooleanValue = False, mutationMethod = None\<rparr>"

definition properties :: "(string \<times> descriptor) list" where
  "properties =
     [
      (''acceptCharset'', attr ''accept-charset''),
      (''allowFullScreen'', (attr ''allowfullscreen'')\<lparr>hasBooleanValue := True\<rparr>),
      (''async'', (attr ''async'')\<lparr>hasBooleanValue := True\<rparr>),
      (''autoPlay'', (attr ''autoplay'')\<lparr>hasBooleanValue := True\<rparr>),
      (''capture'', (attr ''capture'')\<lparr>hasBooleanValue := True\<rparr>),
      (''checked'', (attr ''checked'')\<lparr>mustUseProperty := True, hasBooleanValue := True\<rparr>),
      (''className'', attr ''class''),
      (''cols'', (attr ''cols'')\<lparr>hasNumericValue := True\<rparr>),
      (''controls'', (attr ''controls'')\<lparr>hasBooleanValue := True\<rparr>),
      (''default'', (attr ''default'')\<lparr>hasBooleanValue := True\<rparr>),
      (''defer'', (attr ''defer'')\<lparr>hasBooleanValue := True\<rparr>),
      (''disabled'', (attr ''disabled'')\<lparr>hasBooleanValue := True\<rparr>),
      (''download'', (attr ''download'')\<lparr>hasOverloadedBooleanValue := True\<rparr>),
      (''formNoValidate'', (attr ''formnovalidate'')\<lparr>hasBooleanValue := True\<rparr>),
      (''hidden'', (attr ''hidden'')\<lparr>hasBooleanValue := True\<rparr>),
      (''htmlFor'', attr ''for''),
      (''httpEquiv'', attr ''http-equiv''),
      (''loop'', (attr ''loop'')\<lparr>hasBooleanValue := True\<rparr>),
      (''multiple'', (attr ''multiple'')\<lparr>mustUseProperty := True, hasBooleanValue := True\<rparr>),
      (''muted'', (attr ''muted'')\<lparr>mustUseProperty := True, hasBooleanValue := True\<rparr>),
      (''noValidate'', (attr ''novalidate'')\<lparr>hasBooleanValue := True\<rparr>),
      (''open'', (attr ''open'')\<lparr>hasBooleanValue := True\<rparr>),
      (''playsInline'', (attr ''playsinline'')\<lparr>hasBooleanValue := True\<rparr>),
      (''readOnly'', (attr ''readonly'')\<lparr>hasBooleanValue := True\<rparr>),
      (''required'', (attr ''required'')\<lparr>hasBooleanValue := True\<rparr>),
      (''reversed'', (attr ''reversed'')\<lparr>hasBooleanValue := True\<rparr>),
      (''rows'', (attr ''rows'')\<lparr>hasNumericValue := True, hasPositiveNumericValue := True\<rparr>),
      (''rowSpan'', (attr ''rowspan'')\<lparr>hasNumericValue := True\<rparr>),
      (''scoped'', (attr ''scoped'')\<lparr>hasBooleanValue := True\<rparr>),
      (''seamless'', (attr ''seamless'')\<lparr>hasBooleanValue := True\<rparr>),
      (''selected'', (attr ''selected'')\<lparr>mustUseProperty := True, hasBooleanValue := True\<rparr>),
      (''size'', (attr ''size'')\<lparr>hasNumericValue := True, hasPositiveNumericValue := True\<rparr>),
      (''span'', (attr ''span'')\<lparr>hasNumericValue := True, hasPositiveNumericValue := True\<rparr>),
      (''start'', (attr ''start'')\<lparr>hasNumericValue := True\<rparr>),
      (''itemScope'', (attr ''itemscope'')\<lparr>hasBooleanValue := True\<rparr>),
      (''value'', (attr ''value'')\<lparr>mutationMethod := Some setValueAttribute\<rparr>),
      (''accentHeight'', attr ''accent-height''),
      (''alignmentBaseline'', attr ''alignment-baseline''),
      (''arabicForm'', attr ''arabic-form''),
      (''baselineShift'', attr ''baseline-shift''),
      (''capHeight'', attr ''cap-height''),
      (''clipPath'', attr ''clip-path''),
      (''clipRule'', attr ''clip-rule''),
      (''colorInterpolation'', attr ''color-interpolation''),
      (''colorInterpolationFilters'', attr ''color-interpolation-filters''),
      (''colorProfile'', attr ''color-profile''),
      (''colorRendering'', attr ''color-rendering''),
      (''dominantBaseline'', attr ''dominant-baseline''),
      (''enableBackground'', attr ''enable-background''),
      (''fillOpacity'', attr ''fill-opacity''),
      (''fillRule'', attr ''fill-rule''),
      (''filterRes'', attr ''filterRes''),
      (''filterUnits'', attr ''filterUnits''),
      (''floodColor'', attr ''flood-color''),
      (''floodOpacity'', attr ''flood-opacity''),
      (''fontFamily'', attr ''font-family''),
      (''fontSize'', attr ''font-size''),
      (''fontSizeAdjust'', attr ''font-size-adjust''),
      (''fontStretch'', attr ''font-stretch''),
      (''fontStyle'', attr ''font-style''),
      (''fontVariant'', attr ''font-variant''),
      (''fontWeight'', attr ''font-weight''),
      (''glyphName'', attr ''glyph-name''),
      (''glyphOrientationHorizontal'', attr ''glyph-orientation-horizontal''),
      (''glyphOrientationVertical'', attr ''glyph-orientation-vertical''),
      (''glyphRef'', attr ''glyphRef''),
      (''horizAdvX'', attr ''horiz-adv-x''),
      (''horizOriginX'', attr ''horiz-origin-x''),
      (''imageRendering'', attr ''image-rendering''),
      (''letterSpacing'', attr ''letter-spacing''),
      (''lightingColor'', attr ''lighting-color''),
      (''markerEnd'', attr ''marker-end''),
      (''markerMid'', attr ''marker-mid''),
      (''markerStart'', attr ''marker-start''),
      (''overlinePosition'', attr ''overline-position''),
      (''overlineThickness'', attr ''overline-thickness''),
      (''paintOrder'', attr ''paint-order''),
      (''panose1'', attr ''panose-1''),
      (''pointerEvents'', attr ''pointer-events''),
      (''renderingIntent'', attr ''rendering-intent''),
      (''shapeRendering'', attr ''shape-rendering''),
      (''stopColor'', attr ''stop-color''),
      (''stopOpacity'', attr ''stop-opacity''),
      (''strikethroughPosition'', attr ''strikethrough-position''),
      (''strikethroughThickness'', attr ''strikethrough-thickness''),
      (''strokeDasharray'', attr ''stroke-dasharray''),
      (''strokeDashoffset'', attr ''stroke-dashoffset''),
      (''strokeLinecap'', attr ''stroke-linecap''),
      (''strokeLinejoin'', attr ''stroke-linejoin''),
      (''strokeMiterlimit'', attr ''stroke-miterlimit''),
      (''strokeOpacity'', attr ''stroke-opacity''),
      (''strokeWidth'', attr ''stroke-width''),
      (''textAnchor'', attr ''text-anchor''),
      (''textDecoration'', attr ''text-decoration''),
      (''textRendering'', attr ''text-rendering''),
      (''underlinePosition'', attr ''underline-position''),
      (''underlineThickness'', attr ''underline-thickness''),
      (''unicodeBidi'', attr ''unicode-bidi''),
      (''unicodeRange'', attr ''unicode-range''),
      (''unitsPerEm'', attr ''units-per-em''),
      (''vAlphabetic'', attr ''v-alphabetic''),
      (''vHanging'', attr ''v-hanging''),
      (''vIdeographic'', attr ''v-ideographic''),
      (''vMathematical'', attr ''v-mathematical''),
      (''vectorEffect'', attr ''vector-effect''),
      (''vertAdvY'', attr ''vert-adv-y''),
      (''vertOriginX'', attr ''vert-origin-x''),
      (''vertOriginY'', attr ''vert-origin-y''),
      (''wordSpacing'', attr ''word-spacing''),
      (''writingMode'', attr ''writing-mode''),
      (''xHeight'', attr ''x-height''),
      (''xlinkActuate'', (attr ''xlink:actuate'')\<lparr>attributeNamespace := Some ''http://www.w3.org/1999/xlink''\<rparr>),
      (''xlinkArcrole'', (attr ''xlink:arcrole'')\<lparr>attributeNamespace := Some ''http://www.w3.org/1999/xlink''\<rparr>),
      (''xlinkHref'', (attr ''xlink:href'')\<lparr>attributeNamespace := Some ''http://www.w3.org/1999/xlink''\<rparr>),
      (''xlinkRole'', (attr ''xlink:role'')\<lparr>attributeNamespace := Some ''http://www.w3.org/1999/xlink''\<rparr>),
      (''xlinkShow'', (attr ''xlink:show'')\<lparr>attributeNamespace := Some ''http://www.w3.org/1999/xlink''\<rparr>),
      (''xlinkTitle'', (attr ''xlink:title'')\<lparr>attributeNamespace := Some ''http://www.w3.org/1999/xlink''\<rparr>),
      (''xlinkType'', (attr ''xlink:type'')\<lparr>attributeNamespace := Some ''http://www.w3.org/1999/xlink''\<rparr>),
      (''xmlBase'', (attr ''xml:base'')\<lparr>attributeNamespace := Some ''http://www.w3.org/XML/1998/namespace''\<rparr>),
      (''xmlnsXlink'', attr ''xmlns:xlink''),
      (''xmlLang'', (attr ''xml:lang'')\<lparr>attributeNamespace := Some ''http://www.w3.org/XML/1998/namespace''\<rparr>),
      (''xmlSpace'', (attr ''xml:space'')\<lparr>attributeNamespace := Some ''http://www.w3.org/XML/1998/namespace''\<rparr>)
     ]"

text \<open>
  The members the object \<open>DOMProperty\<close> defines. \<open>attributeName\<close> is not among
  them, so the expression \<open>DOMProperty.attributeName\<close> evaluates to \<open>undefined\<close>
  (\<open>None\<close>; \<open>Some ks\<close> would be the enumerable keys of an object).
\<close>

definition DOMProperty_members :: "string list" where
  "DOMProperty_members =
     [''ID_ATTRIBUTE_NAME'', ''ROOT_ATTRIBUTE_NAME'', ''ATTRIBUTE_NAME_START_CHAR'',
      ''ATTRIBUTE_NAME_CHAR'', ''properties'', ''getPossibleStandardName'',
      ''isReservedProp'']"

definition DOMProperty_attributeName :: "string list option" where
  "DOMProperty_attributeName =
     (if ''attributeName'' \<in> set DOMProperty_members then Some [] else None)"


section \<open>ReactDOMUnknownPropertyHook (development build)\<close>

subsection \<open>What the hook takes from other modules\<close>

text \<open>
  \<open>EventPluginRegistry\<close>, the component tree hook and the current debug frame are not
  part of these sources. Their two tables and their stack addenda are parameters. The
  tables are ordinary objects: the plugin modules stored in the first are opaque.
  \<open>warning(false, format, ...args)\<close> of fbjs reports to the console; the model keeps the
  calls, in order.
\<close>

record environment =
  registrationNameModules :: "unit jsobject"
  possibleRegistrationNames :: "string jsobject"
  getStackAddendumByID :: "nat \<Rightarrow> string"
  currentFrameStackAddendum :: "string option"

record warning_call =
  format :: string
  args :: "string list"

record dev_state =
  warnedProperties :: "bool jsobject"
  console :: "warning_call list"

definition initial_state :: dev_state where
  "initial_state = \<lparr>warnedProperties = Map.empty, console = []\<rparr>"

definition warning :: "dev_state \<Rightarrow> string \<Rightarrow> string list \<Rightarrow> dev_state" where
  "warning st fmt as = st\<lparr>console := console st @ [\<lparr>format = fmt, args = as\<rparr>]\<rparr>"

definition getStackAddendum :: "environment \<Rightarrow> nat option \<Rightarrow> string" where
  "getStackAddendum env debugID =
     (case debugID of
        Some i \<Rightarrow> getStackAddendumByID env i
      | None \<Rightarrow> (case currentFrameStackAddendum env of Some stack \<Rightarrow> stack | None \<Rightarrow> []))"

subsection \<open>The alias table\<close>

text \<open>
  The literal, then the loop \<open>for (var key in DOMProperty.attributeName)\<close>, which
  stores every key under its lower-cased form. A \<open>for-in\<close> over \<open>undefined\<close> runs
  no iteration.
\<close>

definition possibleStandardNames_literal :: "(string \<times> string) list" where
  "possibleStandardNames_literal =
     [(''autofocus'', ''autoFocus''),
      (''class'', ''className''),
      (''for'', ''htmlFor''),
      (''accept-charset'', ''acceptCharset''),
      (''http-equiv'', ''httpEquiv'')]"

definition possibleStandardNames :: "string jsobject" where
  "possibleStandardNames =
     fold (\<lambda>key obj. assign obj (toLowerCase key) key)
       (case DOMProperty_attributeName of None \<Rightarrow> [] | Some keys \<Rightarrow> keys)
       (map_of possibleStandardNames_literal)"

subsection \<open>The four messages\<close>

definition unknown_event_handler_format :: string where
  "unknown_event_handler_format = ''Unknown event handler property %s. Did you mean `%s`?%s''"

definition unknown_DOM_property_format :: string where
  "unknown_DOM_property_format = ''Unknown DOM property %s. Did you mean %s?%s''"

definition unknown_prop_format :: string where
  "unknown_prop_format =
     ''Unknown prop %s on <%s> tag. Remove this prop from the element. '' @
     ''For details, see https://fb.me/react-unknown-prop%s''"

definition unknown_props_format :: string where
  "unknown_props_format =
     ''Unknown props %s on <%s> tag. Remove these props from the element. '' @
     ''For details, see https://fb.me/react-unknown-prop%s''"

subsection \<open>validateProperty\<close>

text \<open>
  The result is the value returned or the error thrown, with the state the call leaves.
  The branches follow the source in its order, the last \<open>return\<close> included.
\<close>

definition validateProperty ::
  "environment \<Rightarrow> dev_state \<Rightarrow> string \<Rightarrow> string \<Rightarrow> nat option \<Rightarrow> (error + bool) \<times> dev_state"
where
  "validateProperty env st tagName name debugID =
     (let lowerCasedName = toLowerCase name in
      case hasOwnProperty (warnedProperties st) name of
        Inl e \<Rightarrow> (Inl e, st)
      | Inr own \<Rightarrow>
          if own \<and> warnedProperties st name = Some True then (Inr True, st)
          else
            let st1 = st\<lparr>warnedProperties := assign (warnedProperties st) name True\<rparr> in
            case hasOwnProperty (registrationNameModules env) name of
              Inl e \<Rightarrow> (Inl e, st1)
            | Inr registered \<Rightarrow>
                if registered then (Inr True, st1)
                else
                  case hasOwnProperty (possibleRegistrationNames env) lowerCasedName of
                    Inl e \<Rightarrow> (Inl e, st1)
                  | Inr possible \<Rightarrow>
                      case (if possible then possibleRegistrationNames env lowerCasedName
                            else None) of
                        Some registrationName \<Rightarrow>
                          (Inr True,
                           warning st1 unknown_event_handler_format
                             [name, registrationName, getStackAddendum env debugID])
                      | None \<Rightarrow>
                          case hasOwnProperty possibleStandardNames name of
                            Inl e \<Rightarrow> (Inl e, st1)
                          | Inr standard \<Rightarrow>
                              let standardName =
                                    (if standard then possibleStandardNames name else None);
                                  hasBadCasing =
                                    (standardName \<noteq> None \<and> standardName \<noteq> Some name)
                              in
                                if \<not> hasBadCasing then (Inr True, st1)
                                else
                                  case standardName of
                                    Some s \<Rightarrow>
                                      (Inr True,
                                       warning st1 unknown_DOM_property_format
                                         [name, s, getStackAddendum env debugID])
                                  | None \<Rightarrow>
                                      (case isReservedProp name of
                                         Inl e \<Rightarrow> (Inl e, st1)
                                       | Inr reserved \<Rightarrow> (Inr reserved, st1)))"

subsection \<open>warnUnknownProperties\<close>

text \<open>
  The property bag is the list of its enumerable properties in the order \<open>for-in\<close>
  visits them. The loop stops at the first error, as the exception leaves it.
\<close>

type_synonym props = "(string \<times> jsval) list"

fun warnUnknownProperties_loop ::
  "environment \<Rightarrow> dev_state \<Rightarrow> string \<Rightarrow> props \<Rightarrow> nat option \<Rightarrow> string list
     \<Rightarrow> (error + string list) \<times> dev_state"
where
  "warnUnknownProperties_loop env st type [] debugID unknownProps = (Inr unknownProps, st)"
| "warnUnknownProperties_loop env st type ((key, v) # rest) debugID unknownProps =
     (case validateProperty env st type key debugID of
        (Inl e, st') \<Rightarrow> (Inl e, st')
      | (Inr isValid, st') \<Rightarrow>
          warnUnknownProperties_loop env st' type rest debugID
            (if \<not> isValid then unknownProps @ [key] else unknownProps))"

text \<open>The part after the loop: the string of the names, and at most one message.\<close>

definition warnUnknownProperties_report ::
  "environment \<Rightarrow> dev_state \<Rightarrow> string \<Rightarrow> string list \<Rightarrow> nat option \<Rightarrow> dev_state"
where
  "warnUnknownProperties_report env st type unknownProps debugID =
     (let unknownPropString = join '', '' (map (\<lambda>prop. ''`'' @ prop @ ''`'') unknownProps) in
      if length unknownProps = 1 then
        warning st unknown_prop_format
          [unknownPropString, type, getStackAddendum env debugID]
      else if length unknownProps > 1 then
        warning st unknown_props_format
          [unknownPropString, type, getStackAddendum env debugID]
      else st)"

definition warnUnknownProperties ::
  "environment \<Rightarrow> dev_state \<Rightarrow> string \<Rightarrow> props \<Rightarrow> nat option \<Rightarrow> (error + unit) \<times> dev_state"
where
  "warnUnknownProperties env st type props debugID =
     (case warnUnknownProperties_loop env st type props debugID [] of
        (Inl e, st') \<Rightarrow> (Inl e, st')
      | (Inr unknownProps, st') \<Rightarrow>
          (Inr (), warnUnknownProperties_report env st' type unknownProps debugID))"

subsection \<open>validateProperties\<close>

text \<open>\<open>props.is\<close>: the value of the property, \<open>undefined\<close> when there is none.\<close>

definition get_prop :: "props \<Rightarrow> string \<Rightarrow> jsval" where
  "get_prop props name = (case map_of props name of Some v \<Rightarrow> v | None \<Rightarrow> JSUndefined)"

definition validateProperties ::
  "environment \<Rightarrow> dev_state \<Rightarrow> string \<Rightarrow> props \<Rightarrow> nat option \<Rightarrow> (error + unit) \<times> dev_state"
where
  "validateProperties env st type props debugID =
     (if indexOf type CHR ''-'' \<ge> 0 \<or> truthy (get_prop props ''is'') then (Inr (), st)
      else warnUnknownProperties env st type props debugID)"

text \<open>
  A sequence of calls from the renderer. An exception ends the call that threw it; the
  cache and the console keep what that call did.
\<close>

fun validateProperties_calls ::
  "environment \<Rightarrow> dev_state \<Rightarrow> (string \<times> props \<times> nat option) list \<Rightarrow> dev_state"
where
  "validateProperties_calls env st [] = st"
| "validateProperties_calls env st ((type, props, debugID) # calls) =
     validateProperties_calls env (snd (validateProperties env st type props debugID)) calls"


subsection \<open>An example environment\<close>

text \<open>
  One registered event, \<open>onClick\<close>, with its lower-cased form in the table of possible
  names, and empty stack addenda. The concrete runs below use it.
\<close>

definition example_environment :: environment where
  "example_environment =
     \<lparr>registrationNameModules = map_of [(''onClick'', ())],
      possibleRegistrationNames = map_of [(''onclick'', ''onClick'')],
      getStackAddendumByID = (\<lambda>i. []),
      currentFrameStackAddendum = None\<rparr>"


subsection \<open>Reading the console\<close>

text \<open>
  A message mentions a name as an unknown or mistyped property when the name is its first
  argument, or, for the two messages that list several names, when the name stands in the
  list between backquotes.
\<close>

fun occurs_in :: "string \<Rightarrow> string \<Rightarrow> bool" where
  "occurs_in xs [] = (xs = [])"
| "occurs_in xs (y # ys) = (prefix xs (y # ys) \<or> occurs_in xs ys)"

definition mentions :: "string \<Rightarrow> warning_call \<Rightarrow> bool" where
  "mentions n w =
     (case args w of
        [] \<Rightarrow> False
      | a # rest \<Rightarrow>
          if format w = unknown_prop_format \<or> format w = unknown_props_format
          then occurs_in (''`'' @ n @ ''`'') a
          else a = n)"

text \<open>
  The invariant behind the cache: no message mentions the name yet, or exactly one does
  and the cache holds the name.
\<close>

definition at_most_once :: "string \<Rightarrow> dev_state \<Rightarrow> bool" where
  "at_most_once n st =
     (filter (mentions n) (console st) = []
      \<or> (length (filter (mentions n) (console st)) = 1 \<and> warnedProperties st n = Some True))"

text \<open>
  The list of names as the specification words it: every name between backquotes, the
  names separated by a comma and a space.
\<close>

fun comma_separated_spec :: "string list \<Rightarrow> string" where
  "comma_separated_spec [] = []"
| "comma_separated_spec [p] = ''`'' @ p @ ''`''"
| "comma_separated_spec (p # q # ps) = ''`'' @ p @ ''`'' @ '', '' @ comma_separated_spec (q # ps)"


section \<open>Properties of DOMProperty\<close>

lemma RESERVED_PROPS_own:
  "(RESERVED_PROPS name \<noteq> None) =
     (name \<in> {''children'', ''dangerouslySetInnerHTML'', ''key'', ''ref'', ''autoFocus'',
               ''defaultValue'', ''defaultChecked'', ''innerHTML'',
               ''suppressContentEditableWarning'', ''onFocusIn'', ''onFocusOut''})"
  unfolding RESERVED_PROPS_def
  by (simp only: map_of_eq_None_iff not_not list.set image_insert image_empty fst_conv)

lemma RESERVED_PROPS_method: "RESERVED_PROPS ''hasOwnProperty'' = None"
  unfolding RESERVED_PROPS_def by simp

text \<open>
  C8. \<open>isReservedProp(name)\<close> returns normally for every string, with \<open>true\<close> exactly
  for the eleven reserved names and \<open>false\<close> for every other name; \<open>toString\<close>,
  which every object inherits from \<open>Object.prototype\<close>, is not reserved.
\<close>

theorem isReservedProp_exact:
  "isReservedProp name =
     Inr (name \<in> {''children'', ''dangerouslySetInnerHTML'', ''key'', ''ref'', ''autoFocus'',
                   ''defaultValue'', ''defaultChecked'', ''innerHTML'',
                   ''suppressContentEditableWarning'', ''onFocusIn'', ''onFocusOut''})
   \<and> isReservedProp ''toString'' = Inr False"
proof
  show "isReservedProp name =
     Inr (name \<in> {''children'', ''dangerouslySetInnerHTML'', ''key'', ''ref'', ''autoFocus'',
                   ''defaultValue'', ''defaultChecked'', ''innerHTML'',
                   ''suppressContentEditableWarning'', ''onFocusIn'', ''onFocusOut''})"
    unfolding isReservedProp_def hasOwnProperty_def
    by (simp only: RESERVED_PROPS_method RESERVED_PROPS_own option.case)
  show "isReservedProp ''toString'' = Inr False"
    unfolding isReservedProp_def hasOwnProperty_def RESERVED_PROPS_def by simp
qed


lemma positive_numeric_all:
  "list_all (\<lambda>(n, d). hasPositiveNumericValue d \<longrightarrow> hasNumericValue d) properties"
  by code_simp

text \<open>
  C10. Every descriptor of the registry that sets \<open>hasPositiveNumericValue\<close> sets
  \<open>hasNumericValue\<close> too. The descriptors that set it are those of \<open>rows\<close>,
  \<open>size\<close> and \<open>span\<close>.
\<close>

theorem positive_numeric_is_numeric:
  "(\<forall>(n, d) \<in> set properties. hasPositiveNumericValue d \<longrightarrow> hasNumericValue d)
   \<and> map fst (filter (\<lambda>(n, d). hasPositiveNumericValue d) properties) =
       [''rows'', ''size'', ''span'']"
proof
  show "\<forall>(n, d) \<in> set properties. hasPositiveNumericValue d \<longrightarrow> hasNumericValue d"
    using positive_numeric_all by (simp only: list_all_iff)
  show "map fst (filter (\<lambda>(n, d). hasPositiveNumericValue d) properties) =
          [''rows'', ''size'', ''span'']"
    by code_simp
qed

theorem positive_numeric_is_numeric_witness:
  "(''rows'', (attr ''rows'')\<lparr>hasNumericValue := True, hasPositiveNumericValue := True\<rparr>)
     \<in> set properties
   \<and> hasPositiveNumericValue
       ((attr ''rows'')\<lparr>hasNumericValue := True, hasPositiveNumericValue := True\<rparr>)
   \<and> hasNumericValue
       ((attr ''rows'')\<lparr>hasNumericValue := True, hasPositiveNumericValue := True\<rparr>)"
proof -
  let ?d = "(attr ''rows'')\<lparr>hasNumericValue := True, hasPositiveNumericValue := True\<rparr>"
  have m: "(''rows'', ?d) \<in> set properties" by code_simp
  have p: "hasPositiveNumericValue ?d" by simp
  have "\<forall>(n, d) \<in> set properties. hasPositiveNumericValue d \<longrightarrow> hasNumericValue d"
    using positive_numeric_is_numeric by (rule conjunct1)
  with m p have "hasNumericValue ?d" by blast
  with m p show ?thesis by blast
qed


section \<open>Properties of the unknown-property hook\<close>

subsection \<open>The shape of a call of validateProperty\<close>

text \<open>
  Every call of \<open>validateProperty\<close> ends in one of six ways; a property of the result
  follows from the six cases.
\<close>

lemma validateProperty_rule:
  assumes thrown: "\<And>e. Q (Inl e, st)"
    and hit: "warnedProperties st name = Some True \<Longrightarrow> Q (Inr True, st)"
    and thrown_later: "\<And>e. warnedProperties st name \<noteq> Some True \<Longrightarrow>
           Q (Inl e, st\<lparr>warnedProperties := assign (warnedProperties st) name True\<rparr>)"
    and recorded: "warnedProperties st name \<noteq> Some True \<Longrightarrow>
           Q (Inr True, st\<lparr>warnedProperties := assign (warnedProperties st) name True\<rparr>)"
    and event: "\<And>r. warnedProperties st name \<noteq> Some True \<Longrightarrow>
           possibleRegistrationNames env (toLowerCase name) = Some r \<Longrightarrow>
           Q (Inr True,
              warning (st\<lparr>warnedProperties := assign (warnedProperties st) name True\<rparr>)
                unknown_event_handler_format [name, r, getStackAddendum env debugID])"
    and standard: "\<And>s. warnedProperties st name \<noteq> Some True \<Longrightarrow>
           possibleStandardNames name = Some s \<Longrightarrow> s \<noteq> name \<Longrightarrow>
           Q (Inr True,
              warning (st\<lparr>warnedProperties := assign (warnedProperties st) name True\<rparr>)
                unknown_DOM_property_format [name, s, getStackAddendum env debugID])"
  shows "Q (validateProperty env st tagName name debugID)"
  unfolding validateProperty_def Let_def hasOwnProperty_def
  using assms by (auto split: sum.splits option.splits if_splits)


lemma validateProperty_never_false:
  "fst (validateProperty env st tagName name debugID) \<noteq> Inr False"
  by (rule validateProperty_rule) simp_all

lemma validateProperty_cached:
  "warnedProperties st name = Some True \<Longrightarrow>
     snd (validateProperty env st tagName name debugID) = st"
  by (rule validateProperty_rule) simp_all

lemma validateProperty_shadowed:
  "warnedProperties st ''hasOwnProperty'' \<noteq> None \<Longrightarrow>
     validateProperty env st tagName name debugID = (Inl TypeError, st)"
  unfolding validateProperty_def Let_def hasOwnProperty_def by auto

lemma formats_differ:
  "unknown_event_handler_format \<noteq> unknown_prop_format"
  "unknown_event_handler_format \<noteq> unknown_props_format"
  "unknown_DOM_property_format \<noteq> unknown_prop_format"
  "unknown_DOM_property_format \<noteq> unknown_props_format"
  by (simp_all add: unknown_event_handler_format_def unknown_DOM_property_format_def
        unknown_prop_format_def unknown_props_format_def)

lemma mentions_event [simp]:
  "mentions n \<lparr>format = unknown_event_handler_format, args = name # rest\<rparr> = (name = n)"
  by (simp add: mentions_def formats_differ)

lemma mentions_standard [simp]:
  "mentions n \<lparr>format = unknown_DOM_property_format, args = name # rest\<rparr> = (name = n)"
  by (simp add: mentions_def formats_differ)

lemma toLowerCase_proto: "toLowerCase ''__proto__'' = ''__proto__''"
  by code_simp

lemma possibleStandardNames_proto: "possibleStandardNames ''__proto__'' = None"
  by code_simp

lemma assign_keeps: "obj n = Some True \<Longrightarrow> assign obj name True n = Some True"
  by (simp add: assign_def)

lemma assign_records: "n \<noteq> ''__proto__'' \<Longrightarrow> assign obj n True n = Some True"
  by (simp add: assign_def)

lemma validateProperty_other_names:
  "m \<noteq> name \<Longrightarrow>
     warnedProperties (snd (validateProperty env st tagName name debugID)) m =
       warnedProperties st m"
  by (rule validateProperty_rule) (simp_all add: assign_def warning_def)

lemma validateProperty_cache_grows:
  "warnedProperties st m = Some True \<Longrightarrow>
     warnedProperties (snd (validateProperty env st tagName name debugID)) m = Some True"
  by (rule validateProperty_rule) (simp_all add: assign_keeps warning_def)

lemma indexOf_found: "(0 \<le> indexOf s c) = (c \<in> set s)"
  by (induction s) (auto simp: Let_def)

lemma join_from_concat: "join_from sep acc xs = acc @ concat (map (\<lambda>x. sep @ x) xs)"
  by (induction xs arbitrary: acc) simp_all

lemma comma_separated_spec_concat:
  "comma_separated_spec (p # ps) =
     ''`'' @ p @ ''`'' @ concat (map (\<lambda>x. '', '' @ x) (map (\<lambda>prop. ''`'' @ prop @ ''`'') ps))"
  by (induction ps arbitrary: p) simp_all

lemma join_backquoted:
  "join '', '' (map (\<lambda>prop. ''`'' @ prop @ ''`'') ps) = comma_separated_spec ps"
proof (cases ps)
  case Nil
  then show ?thesis by (simp add: join_def)
next
  case (Cons p rest)
  then show ?thesis
    by (simp only: join_def list.map list.case join_from_concat comma_separated_spec_concat append_assoc)
qed


subsection \<open>Names that no table knows\<close>


subsection \<open>Names in the wrong letter case\<close>

text \<open>
  C4. Run on \<open>classname\<close> and \<open>CLASS\<close>. The first differs from the registry name
  \<open>className\<close> only in case, the second from the alias \<open>class\<close>; as specified,
  both are answered with the suggestion \<open>className\<close>. The code reports nothing for either: the
  alias table holds its five literal entries only, and it is read at the name as given.
\<close>

theorem wrong_case_gets_no_suggestion:
  "map_of properties ''className'' \<noteq> None
   \<and> toLowerCase ''classname'' = toLowerCase ''className''
   \<and> console (snd (validateProperty example_environment initial_state ''div''
                     ''classname'' None)) = []
   \<and> toLowerCase ''CLASS'' = ''class''
   \<and> possibleStandardNames ''class'' = Some ''className''
   \<and> console (snd (validateProperty example_environment initial_state ''div''
                     ''CLASS'' None)) = []"
  by code_simp

subsection \<open>A prop called hasOwnProperty\<close>

text \<open>
  C6. Run on the tag \<open>div\<close> with the props \<open>hasOwnProperty\<close> and \<open>foo\<close>. Validating
  the first stores \<open>true\<close> in the cache under the name of the method the cache check
  calls; the check of the second throws a \<open>TypeError\<close>, which leaves
  \<open>validateProperties\<close>.
\<close>

theorem hasOwnProperty_prop_makes_validation_throw:
  "fst (validateProperties example_environment initial_state ''div''
          [(''hasOwnProperty'', JSNumber 1), (''foo'', JSNumber 2)] None) = Inl TypeError"
  by code_simp

text \<open>
  C7. The name \<open>foo\<close> is valid in the initial state. After a call of
  \<open>validateProperties\<close> whose only prop is \<open>hasOwnProperty\<close>, validating \<open>foo\<close>,
  which that call never saw, throws.
\<close>

theorem cache_change_reaches_other_names:
  "fst (validateProperty example_environment initial_state ''div'' ''foo'' None) = Inr True
   \<and> fst (validateProperty example_environment
            (snd (validateProperties example_environment initial_state ''div''
                    [(''hasOwnProperty'', JSBool True)] None))
            ''div'' ''foo'' None) = Inl TypeError"
  by code_simp

text \<open>
  C9. Validating \<open>hasOwnProperty\<close> records the name; the repeated call throws where it
  is specified to return \<open>true\<close>. Validating \<open>__proto__\<close> passes the cache check and
  leaves the cache without that name.
\<close>

theorem repeated_name_throws_and_proto_is_not_recorded:
  "fst (validateProperty example_environment initial_state ''div''
          ''hasOwnProperty'' None) = Inr True
   \<and> warnedProperties
        (snd (validateProperty example_environment initial_state ''div''
                ''hasOwnProperty'' None))
        ''hasOwnProperty'' = Some True
   \<and> fst (validateProperty example_environment
            (snd (validateProperty example_environment initial_state ''div''
                    ''hasOwnProperty'' None))
            ''div'' ''hasOwnProperty'' None) = Inl TypeError
   \<and> fst (validateProperty example_environment initial_state ''div''
            ''__proto__'' None) = Inr True
   \<and> warnedProperties
        (snd (validateProperty example_environment initial_state ''div''
                ''__proto__'' None))
        ''__proto__'' = None"
  by code_simp

subsection \<open>Custom elements\<close>

text \<open>
  C2, as the code has it. When the tag name contains a hyphen, or the value of
  \<open>props.is\<close> is truthy, \<open>validateProperties\<close> returns normally at once: the console
  and the cache are as before, whatever the property bag holds. In every other call, also
  when the bag has an \<open>is\<close> property whose value is falsy, nothing is bypassed: the call
  is the call of \<open>warnUnknownProperties\<close> on the same tag name and the whole bag.
\<close>

theorem validateProperties_bypass:
  "(CHR ''-'' \<in> set type \<or> truthy (get_prop props ''is'') \<longrightarrow>
      validateProperties env st type props debugID = (Inr (), st))
   \<and> (CHR ''-'' \<notin> set type \<and> \<not> truthy (get_prop props ''is'') \<longrightarrow>
      validateProperties env st type props debugID =
        warnUnknownProperties env st type props debugID)"
  by (simp add: validateProperties_def indexOf_found)

theorem validateProperties_bypass_witness:
  "CHR ''-'' \<in> set ''my-element''
   \<and> validateProperties example_environment initial_state ''my-element''
        [(''class'', JSString ''a'')] None = (Inr (), initial_state)
   \<and> truthy (get_prop [(''is'', JSString ''x-button''), (''class'', JSString ''a'')] ''is'')
   \<and> validateProperties example_environment initial_state ''button''
        [(''is'', JSString ''x-button''), (''class'', JSString ''a'')] None = (Inr (), initial_state)
   \<and> CHR ''-'' \<notin> set ''div''
   \<and> \<not> truthy (get_prop [(''is'', JSBool False), (''class'', JSString ''a'')] ''is'')
   \<and> validateProperties example_environment initial_state ''div''
        [(''is'', JSBool False), (''class'', JSString ''a'')] None
       = warnUnknownProperties example_environment initial_state ''div''
           [(''is'', JSBool False), (''class'', JSString ''a'')] None"
proof -
  have h1: "CHR ''-'' \<in> set ''my-element''" by simp
  have h2: "truthy (get_prop [(''is'', JSString ''x-button''), (''class'', JSString ''a'')] ''is'')"
    by code_simp
  have h3: "CHR ''-'' \<notin> set ''div''" by simp
  have h4: "\<not> truthy (get_prop [(''is'', JSBool False), (''class'', JSString ''a'')] ''is'')"
    by code_simp
  show ?thesis
    using h1 h2 h3 h4
      validateProperties_bypass [of "''my-element''" "[(''class'', JSString ''a'')]"
        example_environment initial_state None]
      validateProperties_bypass [of "''button''"
        "[(''is'', JSString ''x-button''), (''class'', JSString ''a'')]"
        example_environment initial_state None]
      validateProperties_bypass [of "''div''"
        "[(''is'', JSBool False), (''class'', JSString ''a'')]"
        example_environment initial_state None]
    by blast
qed

text \<open>
  The specification speaks of a bag that contains an \<open>is\<close> property. With the empty
  string for its value the bag contains one, and the call validates the bag: it warns about
  \<open>class\<close> and records the name.
\<close>

theorem falsy_is_prop_counterexample:
  "map_of [(''is'', JSString ''''), (''class'', JSString ''a'')] ''is'' = Some (JSString '''')
   \<and> console (snd (validateProperties example_environment initial_state ''div''
                     [(''is'', JSString ''''), (''class'', JSString ''a'')] None))
       = [\<lparr>format = unknown_DOM_property_format, args = [''class'', ''className'', []]\<rparr>]
   \<and> warnedProperties initial_state ''class'' = None
   \<and> warnedProperties (snd (validateProperties example_environment initial_state ''div''
                     [(''is'', JSString ''''), (''class'', JSString ''a'')] None)) ''class''
       = Some True"
  by code_simp

subsection \<open>The combined message\<close>

text \<open>
  The part of \<open>warnUnknownProperties\<close> after its loop, on any list of \<open>k\<close> names: for
  \<open>k = 0\<close> it emits nothing; for \<open>k \<ge> 1\<close> it emits exactly one message, whose first
  argument lists all the names, each between backquotes, separated by commas, with the
  wording \<open>Unknown prop ... Remove this prop\<close> for \<open>k = 1\<close> and
  \<open>Unknown props ... Remove these props\<close> for \<open>k > 1\<close>. The cache is not touched.
\<close>

lemma unknown_props_report:
  "warnedProperties (warnUnknownProperties_report env st type ps debugID) = warnedProperties st
   \<and> console (warnUnknownProperties_report env st type ps debugID) =
       console st @
       (if ps = [] then []
        else [\<lparr>format = (if length ps = 1 then unknown_prop_format else unknown_props_format),
               args = [comma_separated_spec ps, type, getStackAddendum env debugID]\<rparr>])
   \<and> prefix ''Unknown prop %s on <%s> tag. Remove this prop from the element.'' unknown_prop_format
   \<and> prefix ''Unknown props %s on <%s> tag. Remove these props from the element.'' unknown_props_format"
proof -
  have "length ps = 0 \<or> length ps = 1 \<or> length ps > 1" by arith
  then have "warnedProperties (warnUnknownProperties_report env st type ps debugID) = warnedProperties st
   \<and> console (warnUnknownProperties_report env st type ps debugID) =
       console st @
       (if ps = [] then []
        else [\<lparr>format = (if length ps = 1 then unknown_prop_format else unknown_props_format),
               args = [comma_separated_spec ps, type, getStackAddendum env debugID]\<rparr>])"
    unfolding warnUnknownProperties_report_def Let_def join_backquoted warning_def
    by auto
  moreover have "prefix ''Unknown prop %s on <%s> tag. Remove this prop from the element.'' unknown_prop_format"
    unfolding unknown_prop_format_def by simp
  moreover have "prefix ''Unknown props %s on <%s> tag. Remove these props from the element.'' unknown_props_format"
    unfolding unknown_props_format_def by simp
  ultimately show ?thesis by blast
qed

lemma unknown_props_report_examples:
  "console (warnUnknownProperties_report example_environment initial_state ''div'' [] None) = []
   \<and> console (warnUnknownProperties_report example_environment initial_state ''div''
                 [''foo''] None)
       = [\<lparr>format = unknown_prop_format, args = [''`foo`'', ''div'', []]\<rparr>]
   \<and> console (warnUnknownProperties_report example_environment initial_state ''div''
                 [''foo'', ''bar''] None)
       = [\<lparr>format = unknown_props_format, args = [''`foo`, `bar`'', ''div'', []]\<rparr>]"
  using unknown_props_report [of example_environment initial_state "''div''" "[]" None]
    unknown_props_report [of example_environment initial_state "''div''" "[''foo'']" None]
    unknown_props_report [of example_environment initial_state "''div''" "[''foo'', ''bar'']" None]
  by (simp add: initial_state_def getStackAddendum_def example_environment_def)


subsection \<open>One warning for a name\<close>

lemma validateProperty_at_most_once:
  assumes proto: "possibleRegistrationNames env ''__proto__'' = None"
    and inv: "at_most_once n st"
  shows "at_most_once n (snd (validateProperty env st tagName name debugID))"
proof (rule validateProperty_rule)
  fix e show "at_most_once n (snd (Inl e, st))" using inv by simp
next
  show "at_most_once n (snd (Inr True, st))" using inv by simp
next
  fix e
  show "at_most_once n
          (snd (Inl e, st\<lparr>warnedProperties := assign (warnedProperties st) name True\<rparr>))"
    using inv by (auto simp: at_most_once_def assign_keeps)
next
  show "at_most_once n
          (snd (Inr True, st\<lparr>warnedProperties := assign (warnedProperties st) name True\<rparr>))"
    using inv by (auto simp: at_most_once_def assign_keeps)
next
  fix r
  assume miss: "warnedProperties st name \<noteq> Some True"
    and r: "possibleRegistrationNames env (toLowerCase name) = Some r"
  have "name \<noteq> ''__proto__''"
    using proto r by (auto simp: toLowerCase_proto)
  then show "at_most_once n
          (snd (Inr True,
             warning (st\<lparr>warnedProperties := assign (warnedProperties st) name True\<rparr>)
               unknown_event_handler_format [name, r, getStackAddendum env debugID]))"
    using inv miss by (auto simp: at_most_once_def warning_def assign_keeps assign_records)
next
  fix s
  assume miss: "warnedProperties st name \<noteq> Some True"
    and s: "possibleStandardNames name = Some s"
  have "name \<noteq> ''__proto__''"
    using s by (auto simp: possibleStandardNames_proto)
  then show "at_most_once n
          (snd (Inr True,
             warning (st\<lparr>warnedProperties := assign (warnedProperties st) name True\<rparr>)
               unknown_DOM_property_format [name, s, getStackAddendum env debugID]))"
    using inv miss by (auto simp: at_most_once_def warning_def assign_keeps assign_records)
qed

lemma loop_collects_nothing:
  "fst (warnUnknownProperties_loop env st type props debugID acc) = Inr ps \<Longrightarrow> ps = acc"
proof (induction props arbitrary: st acc)
  case Nil
  then show ?case by simp
next
  case (Cons p props)
  obtain key v where p: "p = (key, v)" by (cases p)
  obtain r st' where step: "validateProperty env st type key debugID = (r, st')"
    by (cases "validateProperty env st type key debugID")
  have nf: "r \<noteq> Inr False"
    using validateProperty_never_false [of env st type key debugID] step by simp
  show ?case
  proof (cases r)
    case (Inl e)
    with Cons.prems p step show ?thesis by simp
  next
    case (Inr b)
    with nf have "b" by simp
    with Cons.prems p step Inr have
      "fst (warnUnknownProperties_loop env st' type props debugID acc) = Inr ps"
      by simp
    then show ?thesis by (rule Cons.IH)
  qed
qed

lemma loop_at_most_once:
  assumes proto: "possibleRegistrationNames env ''__proto__'' = None"
  shows "at_most_once n st \<Longrightarrow>
     at_most_once n (snd (warnUnknownProperties_loop env st type props debugID acc))"
proof (induction props arbitrary: st acc)
  case Nil
  then show ?case by simp
next
  case (Cons p props)
  obtain key v where p: "p = (key, v)" by (cases p)
  obtain r st' where step: "validateProperty env st type key debugID = (r, st')"
    by (cases "validateProperty env st type key debugID")
  have inv': "at_most_once n st'"
    using validateProperty_at_most_once [OF proto Cons.prems, of type key debugID] step
    by simp
  show ?case
  proof (cases r)
    case (Inl e)
    with p step inv' show ?thesis by simp
  next
    case (Inr b)
    with p step Cons.IH [OF inv'] show ?thesis by simp
  qed
qed

lemma report_nothing: "warnUnknownProperties_report env st type [] debugID = st"
  by (simp add: warnUnknownProperties_report_def)

lemma warnUnknownProperties_at_most_once:
  assumes proto: "possibleRegistrationNames env ''__proto__'' = None"
    and inv: "at_most_once n st"
  shows "at_most_once n (snd (warnUnknownProperties env st type props debugID))"
proof -
  obtain r st' where loop: "warnUnknownProperties_loop env st type props debugID [] = (r, st')"
    by (cases "warnUnknownProperties_loop env st type props debugID []")
  have inv': "at_most_once n st'"
    using loop_at_most_once [OF proto inv, of type props debugID "[]"] loop by simp
  show ?thesis
  proof (cases r)
    case (Inl e)
    with loop inv' show ?thesis by (simp add: warnUnknownProperties_def)
  next
    case (Inr ps)
    with loop have "ps = []"
      using loop_collects_nothing [of env st type props debugID "[]" ps] by simp
    with Inr loop inv' show ?thesis
      by (simp add: warnUnknownProperties_def report_nothing)
  qed
qed

lemma validateProperties_at_most_once:
  assumes proto: "possibleRegistrationNames env ''__proto__'' = None"
    and inv: "at_most_once n st"
  shows "at_most_once n (snd (validateProperties env st type props debugID))"
  using inv warnUnknownProperties_at_most_once [OF proto inv]
  by (simp add: validateProperties_def)

lemma calls_at_most_once:
  assumes proto: "possibleRegistrationNames env ''__proto__'' = None"
  shows "at_most_once n st \<Longrightarrow> at_most_once n (validateProperties_calls env st calls)"
proof (induction calls arbitrary: st)
  case Nil
  then show ?case by simp
next
  case (Cons c calls)
  obtain type props debugID where c: "c = (type, props, debugID)" by (cases c)
  show ?case
    using Cons.IH [OF validateProperties_at_most_once [OF proto Cons.prems, of type props debugID]] c
    by simp
qed

lemma initial_at_most_once: "at_most_once n initial_state"
  by (simp add: at_most_once_def initial_state_def)

text \<open>
  Start from the empty cache and run any sequence of calls of \<open>validateProperties\<close>,
  with any tag names and property bags, calls that throw included. For every name \<open>n\<close>
  the console then holds at most one message that mentions \<open>n\<close>, and a validation of a
  name the cache holds leaves the console and the cache as they are. The table of possible
  registration names is an object filled by assignments, which cannot give it an own
  property \<open>__proto__\<close>.
\<close>

lemma warns_at_most_once:
  assumes "possibleRegistrationNames env ''__proto__'' = None"
  shows "length (filter (mentions n)
           (console (validateProperties_calls env initial_state calls))) \<le> 1
         \<and> (warnedProperties st n = Some True \<longrightarrow>
              snd (validateProperty env st tagName n debugID) = st)"
  using calls_at_most_once [OF assms initial_at_most_once, of n calls]
  by (auto simp: at_most_once_def validateProperty_cached)

lemma warns_at_most_once_example:
  "possibleRegistrationNames example_environment ''__proto__'' = None
   \<and> length (filter (mentions ''class'')
        (console (validateProperties_calls example_environment initial_state
           [(''div'', [(''class'', JSString ''a'')], None),
            (''span'', [(''class'', JSString ''b''), (''id'', JSString ''c'')], None)]))) = 1
   \<and> warnedProperties
        (snd (validateProperty example_environment initial_state ''div'' ''class'' None))
        ''class'' = Some True
   \<and> snd (validateProperty example_environment
            (snd (validateProperty example_environment initial_state ''div'' ''class'' None))
            ''span'' ''class'' None)
       = snd (validateProperty example_environment initial_state ''div'' ''class'' None)"
proof -
  have h: "possibleRegistrationNames example_environment ''__proto__'' = None"
    by code_simp
  have one: "length (filter (mentions ''class'')
        (console (validateProperties_calls example_environment initial_state
           [(''div'', [(''class'', JSString ''a'')], None),
            (''span'', [(''class'', JSString ''b''), (''id'', JSString ''c'')], None)]))) = 1"
    by code_simp
  have rec: "warnedProperties
        (snd (validateProperty example_environment initial_state ''div'' ''class'' None))
        ''class'' = Some True"
    by code_simp
  show ?thesis
    using h one rec
      warns_at_most_once [OF h, of "''class''" "[]"
        "snd (validateProperty example_environment initial_state ''div'' ''class'' None)"
        "''span''" None]
    by blast
qed

text \<open>
  C3. Run \<open>validateProperties\<close> on the tag \<open>div\<close> with the props \<open>class\<close> and
  \<open>hasOwnProperty\<close>. The call warns once about \<open>class\<close> and records the name. As
  specified, every later validation of \<open>class\<close> returns \<open>true\<close> at the cache check.
  On the code the later validation throws a \<open>TypeError\<close> at that check, and so does the
  next call of \<open>validateProperties\<close> with the prop \<open>class\<close>. No second message is
  emitted.
\<close>

theorem recorded_name_throws_on_later_validation:
  "fst (validateProperties example_environment initial_state ''div''
          [(''class'', JSString ''a''), (''hasOwnProperty'', JSNumber 1)] None) = Inr ()
   \<and> console (snd (validateProperties example_environment initial_state ''div''
          [(''class'', JSString ''a''), (''hasOwnProperty'', JSNumber 1)] None))
       = [\<lparr>format = unknown_DOM_property_format, args = [''class'', ''className'', []]\<rparr>]
   \<and> warnedProperties (snd (validateProperties example_environment initial_state ''div''
          [(''class'', JSString ''a''), (''hasOwnProperty'', JSNumber 1)] None)) ''class''
       = Some True
   \<and> fst (validateProperty example_environment
            (snd (validateProperties example_environment initial_state ''div''
               [(''class'', JSString ''a''), (''hasOwnProperty'', JSNumber 1)] None))
            ''div'' ''class'' None) = Inl TypeError
   \<and> fst (validateProperties example_environment
            (snd (validateProperties example_environment initial_state ''div''
               [(''class'', JSString ''a''), (''hasOwnProperty'', JSNumber 1)] None))
            ''span'' [(''class'', JSString ''b'')] None) = Inl TypeError
   \<and> console (validateProperties_calls example_environment initial_state
        [(''div'', [(''class'', JSString ''a''), (''hasOwnProperty'', JSNumber 1)], None),
         (''span'', [(''class'', JSString ''b'')], None)])
       = [\<lparr>format = unknown_DOM_property_format, args = [''class'', ''className'', []]\<rparr>]"
  by code_simp

end
